theory Spec2Isabelle
  imports Main "HOL-Library.Monad_Syntax"
begin

section \<open>The machine: byte-addressed memory of an x86-64 process\<close>

text \<open>
  The allocator of \<^verbatim>\<open>src/malloc.c\<close> is modelled for the x86-64 target the source
  has a branch for: pointers and \<^verbatim>\<open>size_t\<close> are 64 bits wide, \<^verbatim>\<open>uint32_t\<close> is 32 bits
  wide, memory is little endian. Addresses and machine integers are natural numbers and
  every wrap-around of the C arithmetic is written out (\<open>mod 2 ^ 64\<close>, \<open>mod 2 ^ 32\<close>,
  \<open>mod 2 ^ 28\<close>).

  A heap state holds the bytes of memory, the ranges of memory the process got from the
  page provider (\<^verbatim>\<open>libhalloc_alloc\<close>, an anonymous \<^verbatim>\<open>mmap\<close>) and the two global
  variables of the allocator. A read or a write outside the provider's ranges is a memory
  fault: the call does not return, which is the value \<open>None\<close>. A loop that never ends
  does not return either, and is \<open>None\<close> as well.
\<close>

record heap =
  mem :: "nat \<Rightarrow> nat"
  mapped :: "(nat \<times> nat) list"
  blockList :: nat
  emptyBlockOverheadSize :: nat

text \<open>Little-endian reading and writing of \<open>n\<close> bytes.\<close>

fun rd :: "(nat \<Rightarrow> nat) \<Rightarrow> nat \<Rightarrow> nat \<Rightarrow> nat" where
  "rd m a 0 = 0"
| "rd m a (Suc n) = m a mod 256 + 256 * rd m (Suc a) n"

fun wr :: "(nat \<Rightarrow> nat) \<Rightarrow> nat \<Rightarrow> nat \<Rightarrow> nat \<Rightarrow> (nat \<Rightarrow> nat)" where
  "wr m a 0 v = m"
| "wr m a (Suc n) v = wr (m(a := v mod 256)) (Suc a) n (v div 256)"

text \<open>A byte is mapped when it lies in a range of the provider; an access of \<open>n\<close> bytes
  needs each of them mapped, below the end of the 64-bit address space.\<close>

definition mapped_at :: "heap \<Rightarrow> nat \<Rightarrow> bool" where
  "mapped_at h x = list_ex (\<lambda>(s, l). s \<le> x \<and> x < s + l) (mapped h)"

definition accessible :: "heap \<Rightarrow> nat \<Rightarrow> nat \<Rightarrow> bool" where
  "accessible h a n = (a + n \<le> 2 ^ 64 \<and> list_all (mapped_at h) [a..<a + n])"

definition load :: "heap \<Rightarrow> nat \<Rightarrow> nat \<Rightarrow> nat option" where
  "load h a n = (if accessible h a n then Some (rd (mem h) a n) else None)"

definition store :: "heap \<Rightarrow> nat \<Rightarrow> nat \<Rightarrow> nat \<Rightarrow> heap option" where
  "store h a n v = (if accessible h a n then Some (h\<lparr>mem := wr (mem h) a n v\<rparr>) else None)"

text \<open>\<^verbatim>\<open>memset\<close> and \<^verbatim>\<open>memcpy\<close> of the C library; a length of 0 touches no memory.\<close>

definition memset :: "heap \<Rightarrow> nat \<Rightarrow> nat \<Rightarrow> nat \<Rightarrow> heap option" where
  "memset h p v n =
     (if n = 0 then Some h
      else if accessible h p n
      then Some (h\<lparr>mem := (\<lambda>a. if p \<le> a \<and> a < p + n then v mod 256 else mem h a)\<rparr>)
      else None)"

definition memcpy :: "heap \<Rightarrow> nat \<Rightarrow> nat \<Rightarrow> nat \<Rightarrow> heap option" where
  "memcpy h dst src n =
     (if n = 0 then Some h
      else if accessible h dst n \<and> accessible h src n
      then Some (h\<lparr>mem := (\<lambda>a. if dst \<le> a \<and> a < dst + n then mem h (src + (a - dst)) else mem h a)\<rparr>)
      else None)"

text \<open>Arithmetic on \<^verbatim>\<open>uintptr_t\<close> and on \<^verbatim>\<open>void*\<close>: it wraps at \<open>2 ^ 64\<close>.\<close>

definition padd :: "nat \<Rightarrow> nat \<Rightarrow> nat" where
  "padd a k = (a + k) mod 2 ^ 64"

definition psub :: "nat \<Rightarrow> nat \<Rightarrow> nat" where
  "psub a k = (a + 2 ^ 64 - k mod 2 ^ 64) mod 2 ^ 64"

subsection \<open>The page provider\<close>

text \<open>
  \<^verbatim>\<open>libhalloc_alloc(pages)\<close> of \<^verbatim>\<open>linux.c\<close> computes the length in a \<^verbatim>\<open>uint32_t\<close> and maps
  that many bytes of anonymous memory. The address is the choice of the operating system:
  every public call takes the answer \<open>os\<close> the provider would give if it were asked during
  the call (0 stands for \<^verbatim>\<open>MAP_FAILED\<close>). An anonymous mapping is page aligned, lies in
  the address space, overlaps no existing mapping and is filled with zero bytes; an answer
  that is not of this kind, and a request of length 0, count as a failure.
\<close>

definition os_offer_ok :: "heap \<Rightarrow> nat \<Rightarrow> nat \<Rightarrow> bool" where
  "os_offer_ok h os len =
     (os \<noteq> 0 \<and> os mod 4096 = 0 \<and> os + len \<le> 2 ^ 64 \<and>
      list_all (\<lambda>(s, l). os + len \<le> s \<or> s + l \<le> os) (mapped h))"

definition libhalloc_alloc :: "heap \<Rightarrow> nat \<Rightarrow> nat \<Rightarrow> heap \<times> nat" where
  "libhalloc_alloc h os pages =
     (let len = (pages * 4096) mod 2 ^ 32 in
      if len = 0 \<or> \<not> os_offer_ok h os len then (h, 0)
      else (h\<lparr>mem := (\<lambda>a. if os \<le> a \<and> a < os + len then 0 else mem h a),
               mapped := (os, len) # mapped h\<rparr>, os))"

text \<open>
  \<^verbatim>\<open>libhalloc_free(ptr, pages)\<close> is \<^verbatim>\<open>munmap(ptr, pages * page_size)\<close>, the product taken
  in \<^verbatim>\<open>size_t\<close>: the bytes from \<open>ptr\<close> to \<open>ptr + pages * 4096\<close> are no longer mapped.
\<close>

definition range_cut :: "nat \<Rightarrow> nat \<Rightarrow> nat \<times> nat \<Rightarrow> (nat \<times> nat) list" where
  "range_cut p n r =
     (case r of (s, l) \<Rightarrow>
        (if s < p then [(s, min l (p - s))] else []) @
        (if p + n < s + l then [(max s (p + n), s + l - max s (p + n))] else []))"

definition libhalloc_free :: "heap \<Rightarrow> nat \<Rightarrow> nat \<Rightarrow> heap" where
  "libhalloc_free h ptr pages =
     h\<lparr>mapped := concat (map (range_cut ptr ((pages * 4096) mod 2 ^ 64)) (mapped h))\<rparr>"

section \<open>The data layout of malloc.c\<close>

text \<open>
  \<^verbatim>\<open>AllocMetadata_t\<close> is one 32-bit word: the bit field \<^verbatim>\<open>used\<close> is its low 4 bits, the
  bit field \<^verbatim>\<open>size\<close> its high 28 bits. \<^verbatim>\<open>FreeRegionHeader_t\<close> (24 bytes) has the metadata
  at offset 0, \<^verbatim>\<open>next\<close> at offset 8 and \<^verbatim>\<open>previous\<close> at offset 16. \<^verbatim>\<open>BlockHeader_t\<close>
  (80 bytes) has \<^verbatim>\<open>pages\<close> at offset 0, \<^verbatim>\<open>size\<close> at 4, \<^verbatim>\<open>usedSize\<close> at 8, \<^verbatim>\<open>next\<close> at 16,
  \<^verbatim>\<open>previous\<close> at 24 and \<^verbatim>\<open>freeRegions[i]\<close> at \<open>32 + 8 * i\<close>.
\<close>

definition get_used :: "heap \<Rightarrow> nat \<Rightarrow> nat option" where
  "get_used h a = map_option (\<lambda>w. w mod 16) (load h a 4)"

definition get_size :: "heap \<Rightarrow> nat \<Rightarrow> nat option" where
  "get_size h a = map_option (\<lambda>w. w div 16) (load h a 4)"

definition set_used :: "heap \<Rightarrow> nat \<Rightarrow> nat \<Rightarrow> heap option" where
  "set_used h a u = do { w \<leftarrow> load h a 4; store h a 4 (16 * (w div 16) + u mod 16) }"

definition set_size :: "heap \<Rightarrow> nat \<Rightarrow> nat \<Rightarrow> heap option" where
  "set_size h a s = do { w \<leftarrow> load h a 4; store h a 4 (16 * (s mod 2 ^ 28) + w mod 16) }"

definition toFreeListIndex :: "nat \<Rightarrow> nat" where
  "toFreeListIndex sz =
     (let s = sz mod 2 ^ 32 in
      if s \<le> 32 then 0 else if s \<le> 64 then 1 else if s \<le> 128 then 2
      else if s \<le> 256 then 3 else if s \<le> 512 then 4 else 5)"


section \<open>Free regions\<close>

definition FreeRegion_create :: "heap \<Rightarrow> nat \<Rightarrow> nat \<Rightarrow> (heap \<times> nat) option" where
  "FreeRegion_create h start sz =
     (let footerAddr = psub (padd start sz) 4 in
      if start = 0 then Some (h, 0)
      else do {
        h \<leftarrow> set_used h start 0;
        h \<leftarrow> set_size h start sz;
        h \<leftarrow> store h (start + 8) 8 0;
        h \<leftarrow> store h (start + 16) 8 0;
        w \<leftarrow> load h start 4;
        h \<leftarrow> store h footerAddr 4 w;
        Some (h, start)
      })"

text \<open>
  \<^verbatim>\<open>sizeof(FreeRegionHeader_t) + sizeof(AllocMetadata_t)\<close> is 28. The padding amounts and
  the end address are \<^verbatim>\<open>uint32_t\<close>, the size is a \<^verbatim>\<open>size_t\<close>.
\<close>

definition FreeRegion_getSizeForAlignment :: "nat \<Rightarrow> nat \<Rightarrow> nat" where
  "FreeRegion_getSizeForAlignment originalAddr sz =
     (let freeRegionMinimumSize = 28;
          freeMetadataPaddingAmount =
            (if sz \<ge> freeRegionMinimumSize then 0
             else (freeRegionMinimumSize - sz mod freeRegionMinimumSize) mod 2 ^ 32);
          regionAlignment = 16;
          regionEndAddress = (originalAddr + sz + freeMetadataPaddingAmount + 4) mod 2 ^ 32;
          alignmentPaddingAmount = regionAlignment - regionEndAddress mod regionAlignment;
          sz1 = (sz + freeMetadataPaddingAmount) mod 2 ^ 64
      in (sz1 + alignmentPaddingAmount) mod 2 ^ 64)"

definition FreeRegion_split :: "heap \<Rightarrow> nat \<Rightarrow> nat \<Rightarrow> (heap \<times> nat) option" where
  "FreeRegion_split h original sz =
     (let alignedSize = FreeRegion_getSizeForAlignment original sz;
          newFree = padd original alignedSize
      in do {
        osz \<leftarrow> get_size h original;
        let newFreeSize = (osz + 2 ^ 64 - alignedSize) mod 2 ^ 32;
        (h, _) \<leftarrow> FreeRegion_create h original alignedSize;
        u \<leftarrow> get_used h newFree;
        if u = 1 then Some (h, 0)
        else if newFreeSize < 28 then Some (h, 0)
        else do {
          (h, _) \<leftarrow> FreeRegion_create h newFree newFreeSize;
          Some (h, newFree)
        }
      })"

section \<open>The two address-ordered linked lists\<close>

text \<open>
  The list of blocks and the six lists of free regions of a block are walked by the same
  two loops; \<open>off\<close> is the offset of the field \<^verbatim>\<open>next\<close> in the list's nodes (16 in a
  block header, 8 in a free region) and \<^verbatim>\<open>previous\<close> is the field after it.
  \<open>addToList_loop\<close> is the \<^verbatim>\<open>while\<close> loop of \<^verbatim>\<open>BlockList_addBlockToList\<close> and of
  \<^verbatim>\<open>Block_addRegionToFreeList\<close>, \<open>removeFromList_loop\<close> the \<^verbatim>\<open>for\<close> loop of
  \<^verbatim>\<open>BlockList_removeBlockFromList\<close> and of \<^verbatim>\<open>Block_removeRegionFromFreeList\<close>.
\<close>

partial_function (option) addToList_loop :: "heap \<Rightarrow> nat \<Rightarrow> nat \<Rightarrow> nat \<Rightarrow> nat option" where
  "addToList_loop h off item aux =
     do {
       nx \<leftarrow> load h (aux + off) 8;
       if nx \<noteq> 0 \<and> item < nx then addToList_loop h off item nx else Some aux
     }"

declare addToList_loop.simps [code]

partial_function (option) removeFromList_loop :: "heap \<Rightarrow> nat \<Rightarrow> nat \<Rightarrow> nat \<Rightarrow> heap option" where
  "removeFromList_loop h off item aux =
     (if aux = 0 then Some h
      else do {
        nx \<leftarrow> load h (aux + off) 8;
        if nx = item then do {
          nxt \<leftarrow> load h (item + off) 8;
          h \<leftarrow> store h (aux + off) 8 nxt;
          if nxt \<noteq> 0 then store h (nxt + off + 8) 8 aux else Some h
        }
        else removeFromList_loop h off item nx
      })"

declare removeFromList_loop.simps [code]

definition BlockList_addBlockToList :: "heap \<Rightarrow> nat \<Rightarrow> heap option" where
  "BlockList_addBlockToList h item =
     (if item = 0 then Some h
      else if blockList h = 0 then do {
        h \<leftarrow> store h (item + 16) 8 0;
        h \<leftarrow> store h (item + 24) 8 0;
        Some (h\<lparr>blockList := item\<rparr>)
      }
      else if blockList h > item then do {
        h \<leftarrow> store h (item + 16) 8 (blockList h);
        h \<leftarrow> store h (item + 24) 8 0;
        h \<leftarrow> store h (blockList h + 24) 8 item;
        Some (h\<lparr>blockList := item\<rparr>)
      }
      else do {
        aux \<leftarrow> addToList_loop h 16 item (blockList h);
        nx \<leftarrow> load h (aux + 16) 8;
        h \<leftarrow> store h (item + 16) 8 nx;
        h \<leftarrow> store h (item + 24) 8 aux;
        store h (aux + 16) 8 item
      })"

definition BlockList_removeBlockFromList :: "heap \<Rightarrow> nat \<Rightarrow> heap option" where
  "BlockList_removeBlockFromList h item =
     (if item = 0 then Some h
      else if blockList h = item then do {
        nxt \<leftarrow> load h (item + 16) 8;
        let h = h\<lparr>blockList := nxt\<rparr>;
        h \<leftarrow> (if nxt \<noteq> 0 then store h (nxt + 24) 8 0 else Some h);
        h \<leftarrow> store h (item + 16) 8 0;
        store h (item + 24) 8 0
      }
      else do {
        h \<leftarrow> removeFromList_loop h 16 item (blockList h);
        h \<leftarrow> store h (item + 16) 8 0;
        store h (item + 24) 8 0
      })"

definition Block_addRegionToFreeList :: "heap \<Rightarrow> nat \<Rightarrow> nat \<Rightarrow> heap option" where
  "Block_addRegionToFreeList h this item =
     (if item = 0 then Some h
      else do {
        isz \<leftarrow> get_size h item;
        if isz = 0 then Some h
        else do {
          let list = this + 32 + 8 * toFreeListIndex isz;
          hd \<leftarrow> load h list 8;
          if hd = 0 then do {
            h \<leftarrow> store h (item + 8) 8 0;
            h \<leftarrow> store h (item + 16) 8 0;
            store h list 8 item
          }
          else if hd > item then do {
            h \<leftarrow> store h (item + 8) 8 hd;
            h \<leftarrow> store h (item + 16) 8 0;
            h \<leftarrow> store h (hd + 16) 8 item;
            store h list 8 item
          }
          else do {
            aux \<leftarrow> addToList_loop h 8 item hd;
            nx \<leftarrow> load h (aux + 8) 8;
            h \<leftarrow> store h (item + 8) 8 nx;
            h \<leftarrow> store h (item + 16) 8 aux;
            store h (aux + 8) 8 item
          }
        }
      })"

text \<open>The index of the list is computed from \<^verbatim>\<open>item->metadata.size\<close> before the test for NULL.\<close>

definition Block_removeRegionFromFreeList :: "heap \<Rightarrow> nat \<Rightarrow> nat \<Rightarrow> heap option" where
  "Block_removeRegionFromFreeList h this item =
     do {
       isz \<leftarrow> get_size h item;
       let list = this + 32 + 8 * toFreeListIndex isz;
       if item = 0 then Some h
       else do {
         hd \<leftarrow> load h list 8;
         if hd = item then do {
           nxt \<leftarrow> load h (item + 8) 8;
           h \<leftarrow> store h list 8 nxt;
           h \<leftarrow> (if nxt \<noteq> 0 then store h (nxt + 16) 8 0 else Some h);
           h \<leftarrow> store h (item + 8) 8 0;
           store h (item + 16) 8 0
         }
         else do {
           h \<leftarrow> removeFromList_loop h 8 item hd;
           h \<leftarrow> store h (item + 8) 8 0;
           store h (item + 16) 8 0
         }
       }
     }"


section \<open>Blocks\<close>

partial_function (option) isFreeRegion_scan :: "heap \<Rightarrow> nat \<Rightarrow> nat \<Rightarrow> bool option" where
  "isFreeRegion_scan h it addr =
     (if it = 0 then Some False
      else do {
        isz \<leftarrow> get_size h it;
        let footerAddr = psub (padd it isz) 4;
        if it = addr \<or> footerAddr = addr then Some True
        else do { nx \<leftarrow> load h (it + 8) 8; isFreeRegion_scan h nx addr }
      })"

declare isFreeRegion_scan.simps [code]

fun isFreeRegion_sets :: "heap \<Rightarrow> nat \<Rightarrow> nat \<Rightarrow> nat list \<Rightarrow> nat option" where
  "isFreeRegion_sets h this addr [] = Some 0"
| "isFreeRegion_sets h this addr (i # is) =
     do {
       hd \<leftarrow> load h (this + 32 + 8 * i) 8;
       found \<leftarrow> isFreeRegion_scan h hd addr;
       if found then Some 1 else isFreeRegion_sets h this addr is
     }"

definition Block_isFreeRegion :: "heap \<Rightarrow> nat \<Rightarrow> nat \<Rightarrow> nat option" where
  "Block_isFreeRegion h this addr = isFreeRegion_sets h this addr [0, 1, 2, 3, 4, 5]"

definition Block_coallesceBothSides :: "heap \<Rightarrow> nat \<Rightarrow> nat \<Rightarrow> nat \<Rightarrow> nat \<Rightarrow> heap option" where
  "Block_coallesceBothSides h this left reference right =
     do {
       lsz \<leftarrow> get_size h left;
       let leftFreeRegion = psub reference lsz;
       let rightFreeRegion = right;
       h \<leftarrow> Block_removeRegionFromFreeList h this leftFreeRegion;
       h \<leftarrow> Block_removeRegionFromFreeList h this rightFreeRegion;
       h \<leftarrow> Block_removeRegionFromFreeList h this reference;
       a \<leftarrow> get_size h leftFreeRegion;
       b \<leftarrow> get_size h reference;
       c \<leftarrow> get_size h rightFreeRegion;
       h \<leftarrow> set_size h leftFreeRegion (a + (b + c));
       n \<leftarrow> get_size h leftFreeRegion;
       let footer = psub (padd leftFreeRegion n) 4;
       n \<leftarrow> get_size h leftFreeRegion;
       h \<leftarrow> set_size h footer n;
       Block_addRegionToFreeList h this leftFreeRegion
     }"

definition Block_coallesceLeftSide :: "heap \<Rightarrow> nat \<Rightarrow> nat \<Rightarrow> nat \<Rightarrow> heap option" where
  "Block_coallesceLeftSide h this left reference =
     do {
       lsz \<leftarrow> get_size h left;
       let leftFreeRegion = psub reference lsz;
       h \<leftarrow> Block_removeRegionFromFreeList h this leftFreeRegion;
       h \<leftarrow> Block_removeRegionFromFreeList h this reference;
       a \<leftarrow> get_size h leftFreeRegion;
       b \<leftarrow> get_size h reference;
       h \<leftarrow> set_size h leftFreeRegion (a + b);
       n \<leftarrow> get_size h leftFreeRegion;
       let footer = psub (padd leftFreeRegion n) 4;
       n \<leftarrow> get_size h leftFreeRegion;
       h \<leftarrow> set_size h footer n;
       Block_addRegionToFreeList h this leftFreeRegion
     }"

definition Block_coallesceRightSide :: "heap \<Rightarrow> nat \<Rightarrow> nat \<Rightarrow> nat \<Rightarrow> heap option" where
  "Block_coallesceRightSide h this reference right =
     do {
       let rightFreeRegion = right;
       h \<leftarrow> Block_removeRegionFromFreeList h this rightFreeRegion;
       h \<leftarrow> Block_removeRegionFromFreeList h this reference;
       a \<leftarrow> get_size h reference;
       b \<leftarrow> get_size h right;
       h \<leftarrow> set_size h reference (a + b);
       n \<leftarrow> get_size h reference;
       let footer = psub (padd reference n) 4;
       n \<leftarrow> get_size h reference;
       h \<leftarrow> set_size h footer n;
       Block_addRegionToFreeList h this reference
     }"

definition Block_coallesceFreeRegion :: "heap \<Rightarrow> nat \<Rightarrow> nat \<Rightarrow> heap option" where
  "Block_coallesceFreeRegion h this freeRegion =
     do {
       let prevRegion = psub freeRegion 4;
       fsz \<leftarrow> get_size h freeRegion;
       let nextRegion = padd freeRegion fsz;
       prevIsFree \<leftarrow> Block_isFreeRegion h this prevRegion;
       nextIsFree \<leftarrow> Block_isFreeRegion h this nextRegion;
       if prevIsFree = 0 \<and> nextIsFree = 1 then Block_coallesceRightSide h this freeRegion nextRegion
       else if prevIsFree = 1 \<and> nextIsFree = 0 then Block_coallesceLeftSide h this prevRegion freeRegion
       else if prevIsFree = 1 \<and> nextIsFree = 1
         then Block_coallesceBothSides h this prevRegion freeRegion nextRegion
       else Some h
     }"

definition Block_useRegion :: "heap \<Rightarrow> nat \<Rightarrow> nat \<Rightarrow> (heap \<times> nat) option" where
  "Block_useRegion h this freeRegion =
     do {
       fsz \<leftarrow> get_size h freeRegion;
       let freeRegionFooter = psub (padd freeRegion fsz) 4;
       h \<leftarrow> set_used h freeRegion 1;
       h \<leftarrow> set_used h freeRegionFooter 1;
       us \<leftarrow> load h (this + 8) 4;
       fsz \<leftarrow> get_size h freeRegion;
       h \<leftarrow> store h (this + 8) 4 ((us + fsz) mod 2 ^ 32);
       Some (h, freeRegion)
     }"

definition Block_freeRegion :: "heap \<Rightarrow> nat \<Rightarrow> nat \<Rightarrow> (heap \<times> nat) option" where
  "Block_freeRegion h this region =
     do {
       rsz \<leftarrow> get_size h region;
       let regionFooter = psub (padd region rsz) 4;
       h \<leftarrow> set_used h region 0;
       h \<leftarrow> store h (region + 8) 8 0;
       h \<leftarrow> store h (region + 16) 8 0;
       h \<leftarrow> set_used h regionFooter 0;
       fsz \<leftarrow> get_size h region;
       h \<leftarrow> set_size h regionFooter fsz;
       us \<leftarrow> load h (this + 8) 4;
       fsz \<leftarrow> get_size h region;
       h \<leftarrow> store h (this + 8) 4 ((us + 2 ^ 32 - fsz) mod 2 ^ 32);
       Some (h, region)
     }"

definition Block_create :: "heap \<Rightarrow> nat \<Rightarrow> nat \<Rightarrow> (heap \<times> nat) option" where
  "Block_create h os sz =
     (let memorySize = (sz + 80 + 24 + 4) mod 2 ^ 64;
          pageQuantity = memorySize div 4096 + (if memorySize mod 4096 > 0 then 1 else 0);
          (h, memoryPtr) = libhalloc_alloc h os pageQuantity
      in if memoryPtr = 0 then Some (h, 0)
         else do {
           h \<leftarrow> store h memoryPtr 4 (pageQuantity mod 2 ^ 32);
           h \<leftarrow> store h (memoryPtr + 4) 4 ((pageQuantity * 4096) mod 2 ^ 32);
           h \<leftarrow> store h (memoryPtr + 16) 8 0;
           h \<leftarrow> store h (memoryPtr + 24) 8 0;
           h \<leftarrow> store h (memoryPtr + 8) 4 80;
           h \<leftarrow> memset h (memoryPtr + 32) 0 48;
           bsz \<leftarrow> load h (memoryPtr + 4) 4;
           (h, fr) \<leftarrow> FreeRegion_create h (padd memoryPtr 80) (psub bsz 80);
           h \<leftarrow> store h (memoryPtr + 32 + 8 * 5) 8 fr;
           Some (h, memoryPtr)
         })"

definition Block_isFull :: "heap \<Rightarrow> nat \<Rightarrow> bool option" where
  "Block_isFull h this =
     (if this = 0 then Some False
      else do { us \<leftarrow> load h (this + 8) 4; bsz \<leftarrow> load h (this + 4) 4; Some (us = bsz) })"

partial_function (option) canAllocateSize_scan :: "heap \<Rightarrow> nat \<Rightarrow> nat \<Rightarrow> nat option" where
  "canAllocateSize_scan h it sz =
     (if it = 0 then Some 0
      else do {
        isz \<leftarrow> get_size h it;
        if FreeRegion_getSizeForAlignment it sz < isz then Some it
        else do { nx \<leftarrow> load h (it + 8) 8; canAllocateSize_scan h nx sz }
      })"

declare canAllocateSize_scan.simps [code]

fun canAllocateSize_sets :: "heap \<Rightarrow> nat \<Rightarrow> nat \<Rightarrow> nat list \<Rightarrow> nat option" where
  "canAllocateSize_sets h this sz [] = Some 0"
| "canAllocateSize_sets h this sz (i # is) =
     do {
       hd \<leftarrow> load h (this + 32 + 8 * i) 8;
       it \<leftarrow> canAllocateSize_scan h hd sz;
       if it \<noteq> 0 then Some it else canAllocateSize_sets h this sz is
     }"

text \<open>The parameter \<^verbatim>\<open>size\<close> of \<^verbatim>\<open>Block_canAllocateSize\<close> is a \<^verbatim>\<open>uint32_t\<close>.\<close>

definition Block_canAllocateSize :: "heap \<Rightarrow> nat \<Rightarrow> nat \<Rightarrow> nat option" where
  "Block_canAllocateSize h this sz =
     (if this = 0 then Some 0
      else canAllocateSize_sets h this (sz mod 2 ^ 32) [0, 1, 2, 3, 4, 5])"

definition Block_haveUserAllocations :: "heap \<Rightarrow> nat \<Rightarrow> nat option" where
  "Block_haveUserAllocations h this =
     (if this = 0 then Some 0
      else do {
        us \<leftarrow> load h (this + 8) 4;
        Some (if us > emptyBlockOverheadSize h then 1 else 0)
      })"

definition Block_allocateRegion :: "heap \<Rightarrow> nat \<Rightarrow> nat \<Rightarrow> (heap \<times> nat) option" where
  "Block_allocateRegion h this sz =
     (let regionSize = (sz + 8) mod 2 ^ 32 in
      do {
        freeRegion \<leftarrow> Block_canAllocateSize h this regionSize;
        if freeRegion = 0 then Some (h, 0)
        else do {
          h \<leftarrow> Block_removeRegionFromFreeList h this freeRegion;
          (h, newFreeRegion) \<leftarrow> FreeRegion_split h freeRegion regionSize;
          h \<leftarrow> Block_addRegionToFreeList h this newFreeRegion;
          Block_useRegion h this freeRegion
        }
      })"

definition Block_deallocateRegion :: "heap \<Rightarrow> nat \<Rightarrow> nat \<Rightarrow> heap option" where
  "Block_deallocateRegion h this region =
     do {
       (h, freedRegion) \<leftarrow> Block_freeRegion h this region;
       h \<leftarrow> Block_addRegionToFreeList h this freedRegion;
       Block_coallesceFreeRegion h this freedRegion
     }"

section \<open>Finding a block\<close>

definition createHeapBlock :: "heap \<Rightarrow> nat \<Rightarrow> nat \<Rightarrow> (heap \<times> nat) option" where
  "createHeapBlock h os sz =
     (let alignRegionSize = 8 * 2 in
      do {
        (h, block) \<leftarrow> Block_create h os sz;
        (h, _) \<leftarrow> Block_allocateRegion h block alignRegionSize;
        Some (h, block)
      })"

partial_function (option) getBlockWithFreeRegion_loop :: "heap \<Rightarrow> nat \<Rightarrow> nat \<Rightarrow> nat option" where
  "getBlockWithFreeRegion_loop h block sz =
     (if block = 0 then Some 0
      else do {
        full \<leftarrow> Block_isFull h block;
        it \<leftarrow> (if full then Some 0 else Block_canAllocateSize h block sz);
        if it \<noteq> 0 then Some block
        else do { nx \<leftarrow> load h (block + 16) 8; getBlockWithFreeRegion_loop h nx sz }
      })"

declare getBlockWithFreeRegion_loop.simps [code]

definition getBlockWithFreeRegion :: "heap \<Rightarrow> nat \<Rightarrow> nat \<Rightarrow> (heap \<times> nat) option" where
  "getBlockWithFreeRegion h os sz =
     (if blockList h = 0 then do {
        (h, block) \<leftarrow> createHeapBlock h os (4096 * 4);
        h \<leftarrow> BlockList_addBlockToList h block;
        us \<leftarrow> load h (block + 8) 4;
        Some (h\<lparr>emptyBlockOverheadSize := us\<rparr>, block)
      }
      else do {
        block \<leftarrow> getBlockWithFreeRegion_loop h (blockList h) sz;
        if block \<noteq> 0 then Some (h, block)
        else do {
          (h, block) \<leftarrow> createHeapBlock h os sz;
          h \<leftarrow> BlockList_addBlockToList h block;
          Some (h, block)
        }
      })"

partial_function (option) getBlockWithRegion_loop :: "heap \<Rightarrow> nat \<Rightarrow> nat \<Rightarrow> nat option" where
  "getBlockWithRegion_loop h block region =
     (if block = 0 then Some 0
      else do {
        bsz \<leftarrow> load h (block + 4) 4;
        let blockEndAddr = padd block bsz;
        if region \<ge> block \<and> region < blockEndAddr then Some block
        else do { nx \<leftarrow> load h (block + 16) 8; getBlockWithRegion_loop h nx region }
      })"

declare getBlockWithRegion_loop.simps [code]

definition getBlockWithRegion :: "heap \<Rightarrow> nat \<Rightarrow> nat option" where
  "getBlockWithRegion h region = getBlockWithRegion_loop h (blockList h) region"

section \<open>The public interface\<close>

text \<open>
  A public function takes the heap, the provider's answer \<open>os\<close> where it may ask for
  memory, and its C arguments; it returns the new heap and the returned pointer (0 is
  NULL), or \<open>None\<close> when the call does not return.
\<close>

definition malloc :: "heap \<Rightarrow> nat \<Rightarrow> nat \<Rightarrow> (heap \<times> nat) option" where
  "malloc h os sz =
     do {
       (h, block) \<leftarrow> getBlockWithFreeRegion h os sz;
       (h, memoryPtr) \<leftarrow> Block_allocateRegion h block sz;
       if memoryPtr = 0 then Some (h, 0) else Some (h, padd memoryPtr 4)
     }"

definition free :: "heap \<Rightarrow> nat \<Rightarrow> heap option" where
  "free h pointer =
     (let allocatedRegion = psub pointer 4 in
      do {
        u \<leftarrow> get_used h allocatedRegion;
        if u = 0 then Some h
        else do {
          block \<leftarrow> getBlockWithRegion h pointer;
          if block = 0 then Some h
          else do {
            h \<leftarrow> Block_deallocateRegion h block allocatedRegion;
            have \<leftarrow> Block_haveUserAllocations h block;
            if have = 0 then do {
              h \<leftarrow> BlockList_removeBlockFromList h block;
              pages \<leftarrow> load h block 4;
              Some (libhalloc_free h block pages)
            }
            else Some h
          }
        }
      })"

text \<open>
  \<^verbatim>\<open>realloc\<close> reads \<^verbatim>\<open>headerPtr->size\<close> in the initialiser of \<^verbatim>\<open>payloadLength\<close>, that is
  before the test \<^verbatim>\<open>pointer == NULL\<close>.
\<close>

definition realloc :: "heap \<Rightarrow> nat \<Rightarrow> nat \<Rightarrow> nat \<Rightarrow> (heap \<times> nat) option" where
  "realloc h os pointer sz =
     (let headerPtr = psub pointer 4 in
      do {
        hsz \<leftarrow> get_size h headerPtr;
        let payloadLength = psub hsz (4 * 2);
        let copyLength = payloadLength;
        if pointer = 0 then malloc h os sz
        else if payloadLength = sz then Some (h, pointer)
        else do {
          let copyLength = (if sz < payloadLength then sz else copyLength);
          (h, newMemoryPtr) \<leftarrow> malloc h os sz;
          if newMemoryPtr = 0 then Some (h, 0)
          else do {
            h \<leftarrow> memcpy h newMemoryPtr pointer copyLength;
            h \<leftarrow> free h pointer;
            Some (h, newMemoryPtr)
          }
        }
      })"

definition calloc :: "heap \<Rightarrow> nat \<Rightarrow> nat \<Rightarrow> nat \<Rightarrow> (heap \<times> nat) option" where
  "calloc h os num sz =
     (if sz = 0 then Some (h, 0)
      else do {
        (h, memoryPtr) \<leftarrow> malloc h os ((num * sz) mod 2 ^ 64);
        if memoryPtr = 0 then Some (h, 0)
        else do {
          hsz \<leftarrow> get_size h (psub memoryPtr 4);
          let payloadLength = psub hsz (4 * 2);
          h \<leftarrow> memset h memoryPtr 0 payloadLength;
          Some (h, memoryPtr)
        }
      })"

text \<open>The state of a process that has not called the allocator yet.\<close>

definition init_heap :: heap where
  "init_heap = \<lparr>mem = (\<lambda>a. 0), mapped = [], blockList = 0, emptyBlockOverheadSize = 0\<rparr>"


section \<open>Notions the claims are stated with\<close>

text \<open>
  The payload of a region, seen from its payload pointer \<open>p\<close>: the size in the header at
  \<open>p - 4\<close> minus the header and the footer, as \<^verbatim>\<open>realloc\<close> and \<^verbatim>\<open>calloc\<close> compute it.
\<close>

definition payload_length :: "heap \<Rightarrow> nat \<Rightarrow> nat option" where
  "payload_length h p = do { hsz \<leftarrow> get_size h (psub p 4); Some (psub hsz (4 * 2)) }"

text \<open>The blocks met from \<open>b\<close> along the field \<^verbatim>\<open>next\<close>, at most \<open>n\<close> of them.\<close>

fun block_chain :: "heap \<Rightarrow> nat \<Rightarrow> nat \<Rightarrow> nat list option" where
  "block_chain h b 0 = (if b = 0 then Some [] else None)"
| "block_chain h b (Suc n) =
     (if b = 0 then Some []
      else do { nx \<leftarrow> load h (b + 16) 8; bs \<leftarrow> block_chain h nx n; Some (b # bs) })"

section \<open>Memory: reading after writing\<close>

lemma wr_outside: "b < a \<or> a + n \<le> b \<Longrightarrow> wr m a n v b = m b"
  by (induction n arbitrary: m a v) auto

lemma rd_cong: "(\<And>i. i < n \<Longrightarrow> m (a + i) = m' (a + i)) \<Longrightarrow> rd m a n = rd m' a n"
proof (induction n arbitrary: a)
  case 0
  then show ?case by simp
next
  case (Suc n)
  have "m a = m' a" using Suc.prems[of 0] by simp
  moreover have "rd m (Suc a) n = rd m' (Suc a) n"
  proof (rule Suc.IH)
    fix i assume "i < n"
    then show "m (Suc a + i) = m' (Suc a + i)" using Suc.prems[of "Suc i"] by simp
  qed
  ultimately show ?case by simp
qed

lemma rd_wr_disj: "a + n \<le> b \<or> b + k \<le> a \<Longrightarrow> rd (wr m a n v) b k = rd m b k"
  by (rule rd_cong) (auto simp: wr_outside)

lemma rd_wr_same: "rd (wr m a n v) a n = v mod 256 ^ n"
proof (induction n arbitrary: m a v)
  case 0
  then show ?case by simp
next
  case (Suc n)
  have "wr (m(a := v mod 256)) (Suc a) n (v div 256) a = v mod 256"
    by (simp add: wr_outside)
  then show ?case
    by (simp add: Suc.IH mod_mult2_eq)
qed

lemma padd_eq: "a + k < 2 ^ 64 \<Longrightarrow> padd a k = a + k"
  by (simp add: padd_def)

lemma psub_eq:
  assumes "k \<le> a" and "a < 2 ^ 64"
  shows "psub a k = a - k"
proof -
  define M :: nat where "M = 2 ^ 64"
  have k: "k mod M = k" using assms by (simp add: M_def)
  have "a + M - k = (a - k) + M" using assms by simp
  then have "(a + M - k mod M) mod M = (a - k) mod M" by (simp add: k)
  also have "\<dots> = a - k" using assms by (simp add: M_def)
  finally show ?thesis by (simp add: psub_def M_def)
qed

lemma accessible_iff:
  "accessible h a n \<longleftrightarrow> a + n \<le> 2 ^ 64 \<and> (\<forall>x. a \<le> x \<and> x < a + n \<longrightarrow> mapped_at h x)"
  by (auto simp: accessible_def list_all_iff)

lemma accessible_unmapped: "mapped h = [] \<Longrightarrow> 0 < n \<Longrightarrow> \<not> accessible h a n"
  by (auto simp: accessible_iff mapped_at_def intro!: exI[of _ a])

lemma load_unmapped: "mapped h = [] \<Longrightarrow> 0 < n \<Longrightarrow> load h a n = None"
  by (simp add: load_def accessible_unmapped)

lemma rd_fill_in:
  "lo \<le> b \<Longrightarrow> b + k \<le> hi \<Longrightarrow>
   rd (\<lambda>a. if lo \<le> a \<and> a < hi then c else m a) b k = rd (\<lambda>_. c) b k"
  by (rule rd_cong) simp

lemma rd_fill_out:
  "b + k \<le> lo \<or> hi \<le> b \<Longrightarrow>
   rd (\<lambda>a. if lo \<le> a \<and> a < hi then c else m a) b k = rd m b k"
  by (rule rd_cong) auto

lemma rd_zero: "rd (\<lambda>_. 0) b k = 0"
  by (induction k arbitrary: b) simp_all

lemma accessible_in_range:
  assumes "list_ex (\<lambda>(s, l). s \<le> a \<and> a + n \<le> s + l) (mapped h)" and "a + n \<le> 2 ^ 64"
  shows "accessible h a n"
proof -
  from assms(1) obtain s l where sl: "(s, l) \<in> set (mapped h)" "s \<le> a" "a + n \<le> s + l"
    by (auto simp: list_ex_iff)
  have "mapped_at h x" if "a \<le> x" "x < a + n" for x
    unfolding mapped_at_def list_ex_iff using sl that by (intro bexI[of _ "(s, l)"]) auto
  then show ?thesis using assms(2) by (simp add: accessible_iff)
qed

section \<open>Running the model on concrete heaps\<close>

text \<open>
  The simplifier runs the model like a program when it is kept from rewriting under a
  binder before the bound value is known: the congruence rules below make it evaluate the
  first argument of a bind, the condition of an \<open>if\<close> and the scrutinee of a \<open>case\<close> first.
\<close>

lemma bind_weak_cong: "x = y \<Longrightarrow> Option.bind x f = Option.bind y f"
  by simp

lemma case_prod_weak_cong: "x = y \<Longrightarrow> case_prod f x = case_prod f y"
  by simp

lemma accessible_eval:
  "list_ex (\<lambda>(s, l). s \<le> a \<and> a + n \<le> s + l) (mapped h) \<Longrightarrow> a + n \<le> 2 ^ 64 \<Longrightarrow>
   accessible h a n = True"
  by (simp add: accessible_in_range)

lemmas eval_cong =
  if_weak_cong bind_weak_cong case_prod_weak_cong option.case_cong_weak let_weak_cong

lemmas eval_mem = rd_wr_same rd_wr_disj rd_fill_in rd_fill_out rd_zero accessible_eval

lemmas eval_defs =
  malloc_def free_def realloc_def calloc_def getBlockWithFreeRegion_def getBlockWithRegion_def
  createHeapBlock_def Block_create_def Block_allocateRegion_def Block_deallocateRegion_def
  Block_canAllocateSize_def Block_haveUserAllocations_def Block_isFull_def
  Block_useRegion_def Block_freeRegion_def Block_coallesceFreeRegion_def
  Block_coallesceRightSide_def Block_coallesceLeftSide_def Block_coallesceBothSides_def
  Block_isFreeRegion_def Block_addRegionToFreeList_def Block_removeRegionFromFreeList_def
  BlockList_addBlockToList_def BlockList_removeBlockFromList_def
  FreeRegion_split_def FreeRegion_create_def FreeRegion_getSizeForAlignment_def
  toFreeListIndex_def libhalloc_alloc_def libhalloc_free_def os_offer_ok_def range_cut_def
  get_used_def get_size_def set_used_def set_size_def load_def store_def memset_def memcpy_def
  padd_def psub_def payload_length_def init_heap_def Let_def
  addToList_loop.simps removeFromList_loop.simps isFreeRegion_scan.simps
  canAllocateSize_scan.simps getBlockWithFreeRegion_loop.simps getBlockWithRegion_loop.simps

section \<open>The claims\<close>

text \<open>
  C5. The claim: \<^verbatim>\<open>free(NULL)\<close> returns at once and leaves the block list, the metadata of
  every region and every free list as they were. The code has no test for NULL: the first
  thing \<^verbatim>\<open>free\<close> does is read \<^verbatim>\<open>allocatedRegion->used\<close> at the address
  \<open>NULL - 4 = 2 ^ 64 - 4\<close>. In a process that has no memory from the provider there (here:
  one that has not called the allocator yet) the read is a memory fault and the call does
  not return.
\<close>

theorem free_NULL_faults: "free init_heap 0 = None"
  by (simp add: free_def get_used_def load_unmapped init_heap_def)

text \<open>
  C6. The claim: \<^verbatim>\<open>realloc(NULL, n)\<close> reads no header before the test for NULL and returns
  what \<^verbatim>\<open>malloc(n)\<close> returns. The code reads \<^verbatim>\<open>headerPtr->size\<close> at \<open>NULL - 4\<close> in the
  initialiser of \<^verbatim>\<open>payloadLength\<close>, before the test: in the same process the call faults,
  whatever the provider would answer.
\<close>

theorem realloc_NULL_faults: "realloc init_heap os 0 n = None"
  by (simp add: realloc_def get_size_def load_unmapped init_heap_def)


text \<open>
  C3. The claim: when \<^verbatim>\<open>FreeRegion_split\<close> returns NULL, the allocation uses the whole free
  region: the used region has the size the free region had, and no byte of the free region
  is left outside every region. The code writes the aligned size into the region
  (\<^verbatim>\<open>FreeRegion_create(original, alignedSize)\<close>) before its two tests, and returns NULL
  after it. Below, \<open>a = malloc(64)\<close>, \<open>b = malloc(64)\<close>, \<open>free(a)\<close> leave a free region of 80
  bytes at \<open>a - 4\<close>, between the bookkeeping region and the region of \<open>b\<close>; then
  \<open>malloc(40)\<close> needs 64 bytes, the rest of 16 bytes is less than the 28 a free region
  needs, the split returns NULL, and the region handed out has size 64: the 16 bytes from
  \<open>a + 60\<close> to \<open>a + 76\<close> belong to no region.
\<close>

theorem split_nil_leaves_slack:
  "do { (h, a) \<leftarrow> malloc init_heap 65536 64;
        (h, b) \<leftarrow> malloc h 0 64;
        h \<leftarrow> free h a;
        free_size \<leftarrow> get_size h (a - 4);
        (h, new_free) \<leftarrow> FreeRegion_split h (a - 4) 48;
        Some (a, b, free_size, new_free) } = Some (65664, 65744, 80, 0)
   \<and>
   do { (h, a) \<leftarrow> malloc init_heap 65536 64;
        (h, b) \<leftarrow> malloc h 0 64;
        h \<leftarrow> free h a;
        (h, p) \<leftarrow> malloc h 0 40;
        used_size \<leftarrow> get_size h (p - 4);
        next_used \<leftarrow> get_used h (b - 4);
        Some (p, used_size, p - 4 + used_size, b - 4, next_used) }
     = Some (65664, 64, 65724, 65740, 1)"
  by (simp add: eval_defs eval_mem cong: eval_cong)

text \<open>
  C4. The claim: every insertion into the list of blocks leaves it ascending by address.
  The \<^verbatim>\<open>while\<close> loop of \<^verbatim>\<open>BlockList_addBlockToList\<close> (comment: order by region address)
  goes on while \<^verbatim>\<open>item < aux->next\<close>, which is the test of a descending list, whereas the
  branch for the head keeps the smallest block first. Three requests of 30000 bytes, each
  too large for the blocks there are, answered by the provider with the ascending
  addresses 65536, 131072 and 196608, give the list 65536, 196608, 131072.
\<close>

theorem blockList_not_ascending:
  "do { (h, a) \<leftarrow> malloc init_heap 65536 30000;
        (h, b) \<leftarrow> malloc h 131072 30000;
        (h, c) \<leftarrow> malloc h 196608 30000;
        block_chain h (blockList h) (Suc (Suc (Suc 0))) } = Some [65536, 196608, 131072]"
  by (simp add: eval_defs eval_mem cong: eval_cong)

text \<open>
  C9. \<^verbatim>\<open>calloc\<close>: a pointer that is returned and is not NULL has a payload of zero bytes,
  the payload being what the header in front of the pointer says, and a \<^verbatim>\<open>size\<close> of 0
  gives NULL and leaves the heap as it was.
\<close>

lemma malloc_result_bound: "malloc h os n = Some (h', p) \<Longrightarrow> p < 2 ^ 64"
  by (auto simp: malloc_def padd_def split: Option.bind_splits prod.splits if_splits)

lemma memset_mapped: "memset h p v n = Some h' \<Longrightarrow> mapped h' = mapped h"
  by (auto simp: memset_def split: if_splits)

lemma memset_mem:
  "memset h p v n = Some h' \<Longrightarrow>
   mem h' = (\<lambda>a. if p \<le> a \<and> a < p + n then v mod 256 else mem h a)"
  by (auto simp: memset_def split: if_splits)

lemma accessible_mapped_cong: "mapped h' = mapped h \<Longrightarrow> accessible h' a n = accessible h a n"
  by (simp add: accessible_def mapped_at_def[abs_def])

theorem calloc_zeroes:
  "(calloc h os num sz = Some (h', p) \<and> p \<noteq> 0 \<longrightarrow>
      (\<exists>n. payload_length h' p = Some n \<and> (\<forall>i<n. mem h' (p + i) = 0)))
   \<and> calloc h os num 0 = Some (h, 0)"
proof (intro conjI impI)
  show "calloc h os num 0 = Some (h, 0)" by (simp add: calloc_def)
next
  assume a: "calloc h os num sz = Some (h', p) \<and> p \<noteq> 0"
  then obtain h1 hsz where m: "malloc h os ((num * sz) mod 2 ^ 64) = Some (h1, p)"
    and g: "get_size h1 (psub p 4) = Some hsz"
    and ms: "memset h1 p 0 (psub hsz (4 * 2)) = Some h'"
    by (auto simp: calloc_def split: if_splits Option.bind_splits prod.splits)
  have pb: "p < 2 ^ 64" using m by (rule malloc_result_bound)
  have acc: "accessible h1 (psub p 4) 4" using g by (auto simp: get_size_def load_def split: if_splits)
  have p4: "4 \<le> p"
  proof (rule ccontr)
    assume "\<not> 4 \<le> p"
    with a have "psub p 4 + 4 > 2 ^ 64" by (simp add: psub_def)
    with acc show False by (simp add: accessible_iff)
  qed
  then have ps: "psub p 4 = p - 4" using pb by (simp add: psub_eq)
  have mp: "mapped h' = mapped h1" using ms by (rule memset_mapped)
  have mm: "mem h' = (\<lambda>a. if p \<le> a \<and> a < p + psub hsz (4 * 2) then 0 mod 256 else mem h1 a)"
    using ms by (rule memset_mem)
  have "rd (mem h') (p - 4) 4 = rd (mem h1) (p - 4) 4"
    unfolding mm using p4 by (intro rd_fill_out) simp
  then have "get_size h' (psub p 4) = Some hsz"
    using g acc by (simp add: get_size_def load_def ps accessible_mapped_cong[OF mp])
  then have "payload_length h' p = Some (psub hsz (4 * 2))"
    by (simp add: payload_length_def)
  moreover have "\<forall>i<psub hsz (4 * 2). mem h' (p + i) = 0"
    by (simp add: mm)
  ultimately show "\<exists>n. payload_length h' p = Some n \<and> (\<forall>i<n. mem h' (p + i) = 0)"
    by blast
qed

theorem calloc_zeroes_witness:
  "\<exists>h'. calloc init_heap 65536 3 4 = Some (h', 65664) \<and> payload_length h' 65664 = Some 24 \<and>
        (\<exists>n. payload_length h' 65664 = Some n \<and> (\<forall>i<n. mem h' (65664 + i) = 0))"
proof -
  have "do { (h', p) \<leftarrow> calloc init_heap 65536 3 4; n \<leftarrow> payload_length h' p; Some (p, n) }
          = Some (65664, 24)"
    by (simp add: eval_defs eval_mem cong: eval_cong)
  then obtain h' where c: "calloc init_heap 65536 3 4 = Some (h', 65664)"
    and n: "payload_length h' 65664 = Some 24"
    by (auto split: Option.bind_splits prod.splits)
  from calloc_zeroes[of init_heap 65536 3 4 h' 65664] c
  have "\<exists>n. payload_length h' 65664 = Some n \<and> (\<forall>i<n. mem h' (65664 + i) = 0)" by simp
  with c n show ?thesis by blast
qed

end
